theory Spec2Isabelle
  imports Complex_Main
begin

section \<open>BOM diff engine (models.py)\<close>

text \<open>
  A Python float (or int) is compared by its numeric value; every finite float is a
  rational number. \<open>NaN\<close> is the one value that differs from itself.
\<close>

datatype pyfloat = Fin rat | PosInf | NegInf | NaN

definition py_ne :: "pyfloat \<Rightarrow> pyfloat \<Rightarrow> bool" where
  "py_ne a b = (a = NaN \<or> b = NaN \<or> a \<noteq> b)"

text \<open>The dataclass \<open>BOMItem\<close>; its field \<open>notes\<close> is spelled \<open>notes_\<close> here.\<close>

record BOMItem =
  part_number :: string
  description :: string
  quantity :: pyfloat
  unit :: string
  reference_designator :: "string option"
  notes_ :: "string option"

text \<open>
  The dataclass \<open>BOM\<close>. The date is an opaque time stamp; \<open>metadata\<close> is
  \<open>None\<close> or a dictionary, and \<open>__post_init__\<close> replaces \<open>None\<close> by the
  empty dictionary.
\<close>

record BOM =
  name :: string
  version :: string
  date :: int
  items :: "BOMItem list"
  metadata :: "(string \<rightharpoonup> string) option"

definition BOM_post_init :: "BOM \<Rightarrow> BOM" where
  "BOM_post_init b = (if metadata b = None then b\<lparr>metadata := Some Map.empty\<rparr> else b)"

definition add_item :: "BOM \<Rightarrow> BOMItem \<Rightarrow> BOM" where
  "add_item b item = b\<lparr>items := items b @ [item]\<rparr>"

definition get_item_by_part_number :: "BOM \<Rightarrow> string \<Rightarrow> BOMItem option" where
  "get_item_by_part_number b pn = find (\<lambda>item. part_number item = pn) (items b)"

record BOMComparison =
  bom1 :: BOM
  bom2 :: BOM
  added_items :: "BOMItem list"
  removed_items :: "BOMItem list"
  modified_items :: "(BOMItem \<times> BOMItem) list"
  unchanged_items :: "BOMItem list"

text \<open>
  \<open>{item.part_number: item for item in items}\<close>: a later item overwrites an earlier
  one with the same part number.
\<close>

definition item_dict :: "BOMItem list \<Rightarrow> (string \<rightharpoonup> BOMItem)" where
  "item_dict its = foldl (\<lambda>d item. d(part_number item \<mapsto> item)) Map.empty its"

text \<open>
  The key sets, materialised as lists. Python iterates a set in an order of its own
  choosing; the model lists each key once, in the order of the BOM, and the theorems
  below speak of the members of the resulting lists only.
\<close>

definition part_numbers :: "BOMItem list \<Rightarrow> string list" where
  "part_numbers its = remdups (map part_number its)"

text \<open>\<open>[d[part] for part in parts]\<close>; every part is a key of \<open>d\<close> where it is used.\<close>

definition lookup_all :: "(string \<rightharpoonup> BOMItem) \<Rightarrow> string list \<Rightarrow> BOMItem list" where
  "lookup_all d parts = List.map_filter d parts"

definition item_modified :: "BOMItem \<Rightarrow> BOMItem \<Rightarrow> bool" where
  "item_modified item1 item2 =
     (py_ne (quantity item1) (quantity item2) \<or>
      description item1 \<noteq> description item2 \<or>
      unit item1 \<noteq> unit item2)"

text \<open>One round of the loop over the common part numbers.\<close>

definition classify_part ::
  "(string \<rightharpoonup> BOMItem) \<Rightarrow> (string \<rightharpoonup> BOMItem) \<Rightarrow>
   (BOMItem \<times> BOMItem) list \<times> BOMItem list \<Rightarrow> string \<Rightarrow>
   (BOMItem \<times> BOMItem) list \<times> BOMItem list" where
  "classify_part d1 d2 acc part =
     (case (d1 part, d2 part) of
        (Some item1, Some item2) \<Rightarrow>
          (if item_modified item1 item2
           then (fst acc @ [(item1, item2)], snd acc)
           else (fst acc, snd acc @ [item1]))
      | _ \<Rightarrow> acc)"

definition calculate_differences :: "BOMComparison \<Rightarrow> BOMComparison" where
  "calculate_differences c =
     (let bom1_dict = item_dict (items (bom1 c));
          bom2_dict = item_dict (items (bom2 c));
          bom1_part_numbers = part_numbers (items (bom1 c));
          bom2_part_numbers = part_numbers (items (bom2 c));
          removed_parts = filter (\<lambda>p. p \<notin> set bom2_part_numbers) bom1_part_numbers;
          added_parts = filter (\<lambda>p. p \<notin> set bom1_part_numbers) bom2_part_numbers;
          common_parts = filter (\<lambda>p. p \<in> set bom2_part_numbers) bom1_part_numbers;
          cls = foldl (classify_part bom1_dict bom2_dict) ([], []) common_parts
      in c\<lparr>removed_items := lookup_all bom1_dict removed_parts,
            added_items := lookup_all bom2_dict added_parts,
            modified_items := fst cls,
            unchanged_items := snd cls\<rparr>)"

text \<open>\<open>BOMComparison.__post_init__\<close>: an empty list is falsy.\<close>

definition post_init :: "BOMComparison \<Rightarrow> BOMComparison" where
  "post_init c =
     (if added_items c = [] \<and> removed_items c = [] \<and> modified_items c = []
      then calculate_differences c else c)"

section \<open>Part number allocator and random rows (random_data.py)\<close>

text \<open>
  A value of a row's cell: \<open>None\<close>, a string, an int or a float (a rational; the handler
  never computes with it). Strings are \<open>char\<close> lists, so \<open>chr\<close> is \<open>char_of\<close>, which agrees
  with Python below 256: the prefixes of the first 4992000 part numbers.
\<close>

datatype pyval = VNone | VStr string | VInt int | VFloat rat

type_synonym row = "string \<rightharpoonup> pyval"

definition digit_char :: "nat \<Rightarrow> char" where
  "digit_char d = char_of (48 + d)"

fun str_nat :: "nat \<Rightarrow> string" where
  "str_nat n = (if n < 10 then [digit_char n] else str_nat (n div 10) @ [digit_char (n mod 10)])"

declare str_nat.simps [simp del]

definition str_int :: "int \<Rightarrow> string" where
  "str_int i = (if i < 0 then CHR ''-'' # str_nat (nat (- i)) else str_nat (nat i))"

definition zfill :: "nat \<Rightarrow> string \<Rightarrow> string" where
  "zfill w s = replicate (w - length s) CHR ''0'' @ s"

record gen =
  part_number_counter :: nat
  rnd :: "nat \<Rightarrow> nat"

definition reset_part_number_counter :: "gen \<Rightarrow> gen" where
  "reset_part_number_counter st = st\<lparr>part_number_counter := 0\<rparr>"

definition prefix_from_index :: "nat \<Rightarrow> string" where
  "prefix_from_index i =
     (if i < 26 then [char_of (65 + i)]
      else [char_of (65 + (i - 26) div 26), char_of (65 + (i - 26) mod 26)])"

definition get_next_partno :: "gen \<Rightarrow> string \<times> gen" where
  "get_next_partno st =
     (let prefix_idx = part_number_counter st div 1000;
          num = part_number_counter st mod 1000 + 1
      in (prefix_from_index prefix_idx @ zfill 3 (str_nat num),
          st\<lparr>part_number_counter := part_number_counter st + 1\<rparr>))"

text \<open>The part numbers that \<open>n\<close> successive calls of \<open>get_next_partno\<close> return.\<close>

primrec next_partnos :: "nat \<Rightarrow> gen \<Rightarrow> string list" where
  "next_partnos 0 st = []"
| "next_partnos (Suc n) st =
     fst (get_next_partno st) # next_partnos n (snd (get_next_partno st))"

definition draw :: "gen \<Rightarrow> nat \<times> gen" where
  "draw st = (rnd st 0, st\<lparr>rnd := \<lambda>i. rnd st (Suc i)\<rparr>)"

definition randint :: "int \<Rightarrow> int \<Rightarrow> gen \<Rightarrow> int \<times> gen" where
  "randint a b st = (a + int (fst (draw st)) mod (b - a + 1), snd (draw st))"

definition choice :: "'a list \<Rightarrow> gen \<Rightarrow> 'a \<times> gen" where
  "choice xs st = (xs ! (fst (draw st) mod length xs), snd (draw st))"

fun choices :: "'a list \<Rightarrow> nat \<Rightarrow> gen \<Rightarrow> 'a list \<times> gen" where
  "choices xs 0 st = ([], st)"
| "choices xs (Suc k) st =
     (case choice xs st of (x, st1) \<Rightarrow>
        (case choices xs k st1 of (rest, st2) \<Rightarrow> (x # rest, st2)))"

definition get_next_partno_long :: "gen \<Rightarrow> string \<times> gen" where
  "get_next_partno_long st =
     (case randint 20 50 st of (length_, st1) \<Rightarrow>
        (let prefix = CHR ''P'' # zfill 6 (str_nat (part_number_counter st1));
             st2 = st1\<lparr>part_number_counter := part_number_counter st1 + 1\<rparr>;
             need = length_ - int (length prefix)
         in if need \<le> 0 then (take (nat length_) prefix, st2)
            else (case choices ''ABCDEFGHIJKLMNOPQRSTUVWXYZ0123456789'' (nat need) st2 of
                    (suffix, st3) \<Rightarrow> (prefix @ suffix, st3))))"

definition next_partno :: "bool \<Rightarrow> gen \<Rightarrow> string \<times> gen" where
  "next_partno use_long_partno st =
     (if use_long_partno then get_next_partno_long st else get_next_partno st)"

text \<open>
  \<open>partno = next(); while partno == parent_partno: partno = next()\<close>. The loop ends:
  two successive short part numbers end in different digits, and the long form of the
  counters \<open>10 ^ k\<close> and \<open>2 * 10 ^ k\<close> differ in their second character.
\<close>

function alloc_partno :: "bool \<Rightarrow> pyval \<Rightarrow> gen \<Rightarrow> string \<times> gen" where
  "alloc_partno use_long_partno parent_partno st =
     (if VStr (fst (next_partno use_long_partno st)) = parent_partno
      then alloc_partno use_long_partno parent_partno (snd (next_partno use_long_partno st))
      else next_partno use_long_partno st)"
  by pat_completeness auto
termination
proof (relation "measure (\<lambda>(long, parent, st).
          LEAST d. \<not> (\<exists>r. VStr (fst (next_partno long
             \<lparr>part_number_counter = part_number_counter st + d, rnd = r\<rparr>)) = parent))")
  show "wf (measure (\<lambda>(long, parent, st).
          LEAST d. \<not> (\<exists>r. VStr (fst (next_partno long
             \<lparr>part_number_counter = part_number_counter st + d, rnd = r\<rparr>)) = parent)))"
    by simp
next
  fix long :: bool and parent :: pyval and st :: gen
  assume col: "VStr (fst (next_partno long st)) = parent"
  define C where "C = (\<lambda>c. \<exists>r. VStr (fst (next_partno long
             \<lparr>part_number_counter = c, rnd = r\<rparr>)) = parent)"
  define c where "c = part_number_counter st"
  text \<open>Every call advances the counter by one.\<close>
  have counter_choices:
    "part_number_counter (snd (choices xs k s)) = part_number_counter s"
    for xs :: string and k s
    by (induction k arbitrary: s) (simp_all add: choice_def draw_def case_prod_beta)
  have counter_next:
    "part_number_counter (snd (next_partno long st)) = part_number_counter st + 1"
    by (simp add: next_partno_def get_next_partno_def get_next_partno_long_def Let_def
        randint_def draw_def case_prod_beta counter_choices)
  text \<open>The short form ends in the last digit of its number.\<close>
  have digit_inj: "a = b" if "a < 10" "b < 10" "digit_char a = digit_char b" for a b
    using that by (simp add: digit_char_def char_of_quasi_inj)
  have last_short:
    "last (fst (get_next_partno s)) = digit_char ((part_number_counter s + 1) mod 10)" for s
  proof -
    have "part_number_counter s mod 1000 mod 10 = part_number_counter s mod 10"
      by (simp add: mod_mod_cancel)
    then have "(part_number_counter s mod 1000 + 1) mod 10 = (part_number_counter s + 1) mod 10"
      by (metis mod_add_left_eq)
    moreover have "str_nat n \<noteq> []" for n
      by (subst str_nat.simps) simp
    moreover have "last (str_nat n) = digit_char (n mod 10)" for n
      by (subst str_nat.simps) simp
    ultimately show ?thesis
      by (simp add: get_next_partno_def Let_def zfill_def)
  qed
  have succ_mod10: "(n + 1) mod 10 \<noteq> (n + 1 + 1) mod 10" for n :: nat
  proof -
    define a where "a = (n + 1) mod 10"
    have a: "a < 10" by (simp add: a_def)
    have "(n + 1 + 1) mod 10 = (a + 1) mod 10"
      unfolding a_def by (simp add: mod_Suc_eq)
    also have "\<dots> \<noteq> a"
      using a by (cases "a = 9") simp_all
    finally show ?thesis unfolding a_def by simp
  qed
  text \<open>The long form of a counter \<open>d * 10 ^ k\<close> has the digit \<open>d\<close> in second place.\<close>
  have pow10: "str_nat (d * 10 ^ k) = digit_char d # replicate k CHR ''0''"
    if "0 < d" "d < 10" for d k
  proof (induction k)
    case 0
    show ?case using that by (subst str_nat.simps) simp
  next
    case (Suc k)
    have ge: "\<not> d * 10 ^ Suc k < 10" using that by simp
    have dv: "d * 10 ^ Suc k div 10 = d * 10 ^ k" by simp
    have md: "d * 10 ^ Suc k mod 10 = 0" by simp
    have z: "digit_char 0 = CHR ''0''" by code_simp
    show ?case
      by (subst str_nat.simps)
        (simp only: ge dv md if_False Suc.IH z replicate_append_same append_Cons replicate_Suc)
  qed
  have second_long:
    "fst (get_next_partno_long \<lparr>part_number_counter = d * 10 ^ k, rnd = r\<rparr>) ! 1 = digit_char d"
    if "0 < d" "d < 10" "6 \<le> k" for d k r
  proof -
    let ?st = "\<lparr>part_number_counter = d * 10 ^ k, rnd = r\<rparr>"
    let ?p = "CHR ''P'' # digit_char d # replicate k CHR ''0''"
    have z: "zfill 6 (str_nat (d * 10 ^ k)) = digit_char d # replicate k CHR ''0''"
      using that by (simp add: pow10 zfill_def)
    have len: "20 \<le> fst (randint 20 50 ?st)"
      by (simp add: randint_def)
    have cnt: "part_number_counter (snd (randint 20 50 ?st)) = d * 10 ^ k"
      by (simp add: randint_def draw_def)
    have "fst (get_next_partno_long ?st) = take (nat (fst (randint 20 50 ?st))) ?p \<or>
          (\<exists>suffix. fst (get_next_partno_long ?st) = ?p @ suffix)"
      by (simp add: get_next_partno_long_def Let_def case_prod_beta cnt z)
    then show ?thesis
    proof
      assume "fst (get_next_partno_long ?st) = take (nat (fst (randint 20 50 ?st))) ?p"
      moreover have "1 < nat (fst (randint 20 50 ?st))" using len by simp
      ultimately show ?thesis by simp
    next
      assume "\<exists>suffix. fst (get_next_partno_long ?st) = ?p @ suffix"
      then show ?thesis by auto
    qed
  qed
  text \<open>So some counter from \<open>c\<close> on cannot give the parent's part number.\<close>
  have ex: "\<exists>d. \<not> C (c + d)"
  proof (rule ccontr)
    assume "\<not> ?thesis"
    then have all: "\<And>d. \<exists>r. VStr (fst (next_partno long
        \<lparr>part_number_counter = c + d, rnd = r\<rparr>)) = parent"
      unfolding C_def by blast
    show False
    proof (cases long)
      case False
      from all[of 0] obtain r0 where
        a: "VStr (fst (get_next_partno \<lparr>part_number_counter = c, rnd = r0\<rparr>)) = parent"
        using False by (auto simp: next_partno_def)
      from all[of 1] obtain r1 where
        b: "VStr (fst (get_next_partno \<lparr>part_number_counter = c + 1, rnd = r1\<rparr>)) = parent"
        using False by (auto simp: next_partno_def)
      from a b have "last (fst (get_next_partno \<lparr>part_number_counter = c, rnd = r0\<rparr>)) =
          last (fst (get_next_partno \<lparr>part_number_counter = c + 1, rnd = r1\<rparr>))"
        by auto
      then have "digit_char ((c + 1) mod 10) = digit_char ((c + 1 + 1) mod 10)"
        by (simp add: last_short)
      then have "(c + 1) mod 10 = (c + 1 + 1) mod 10"
        by (rule digit_inj[rotated 2]) simp_all
      then show False using succ_mod10[of c] by simp
    next
      case True
      define k where "k = c + 6"
      have "c < 2 ^ c" by (rule less_exp)
      also have "(2::nat) ^ c \<le> 10 ^ c" by (rule power_mono) simp_all
      also have "(10::nat) ^ c \<le> 10 ^ k" unfolding k_def by (rule power_increasing) simp_all
      finally have kc: "c \<le> 10 ^ k" by simp
      have e1: "c + (10 ^ k - c) = 1 * 10 ^ k" and e2: "c + (2 * 10 ^ k - c) = 2 * 10 ^ k"
        using kc by simp_all
      from all[of "10 ^ k - c"] obtain r1 where
        a: "VStr (fst (get_next_partno_long \<lparr>part_number_counter = 1 * 10 ^ k, rnd = r1\<rparr>)) = parent"
        unfolding e1 next_partno_def using True by auto
      from all[of "2 * 10 ^ k - c"] obtain r2 where
        b: "VStr (fst (get_next_partno_long \<lparr>part_number_counter = 2 * 10 ^ k, rnd = r2\<rparr>)) = parent"
        unfolding e2 next_partno_def using True by auto
      have s1: "fst (get_next_partno_long \<lparr>part_number_counter = 1 * 10 ^ k, rnd = r1\<rparr>) ! 1 =
          digit_char 1"
        by (rule second_long) (simp_all add: k_def)
      have s2: "fst (get_next_partno_long \<lparr>part_number_counter = 2 * 10 ^ k, rnd = r2\<rparr>) ! 1 =
          digit_char 2"
        by (rule second_long) (simp_all add: k_def)
      from a b have
        "fst (get_next_partno_long \<lparr>part_number_counter = 1 * 10 ^ k, rnd = r1\<rparr>) =
         fst (get_next_partno_long \<lparr>part_number_counter = 2 * 10 ^ k, rnd = r2\<rparr>)"
        by (metis pyval.inject(1))
      then have "digit_char 1 = digit_char 2"
        using s1 s2 by (simp only:)
      then show False using digit_inj[of 1 2] by simp
    qed
  qed
  text \<open>The distance to that counter shrinks with every retry.\<close>
  have st: "\<lparr>part_number_counter = c, rnd = rnd st\<rparr> = st"
    by (simp add: c_def)
  have "C c"
    unfolding C_def by (rule exI[of _ "rnd st"]) (simp add: st col)
  define m where "m = (LEAST d. \<not> C (c + d))"
  have m: "\<not> C (c + m)"
    unfolding m_def using ex by (rule LeastI_ex)
  have "m \<noteq> 0"
    using m \<open>C c\<close> by (cases m) auto
  then obtain m' where m': "m = Suc m'" by (cases m) auto
  have "\<not> C (c + 1 + m')" using m m' by simp
  then have "(LEAST d. \<not> C (c + 1 + d)) \<le> m'" by (rule Least_le)
  then have "(LEAST d. \<not> C (c + 1 + d)) < (LEAST d. \<not> C (c + d))"
    using m' m_def by simp
  then show "((long, parent, snd (next_partno long st)), (long, parent, st))
      \<in> measure (\<lambda>(long, parent, st).
          LEAST d. \<not> (\<exists>r. VStr (fst (next_partno long
             \<lparr>part_number_counter = part_number_counter st + d, rnd = r\<rparr>)) = parent))"
    by (simp add: counter_next C_def c_def)
qed

declare alloc_partno.simps [simp del]

definition LOCATIONS :: "string list" where
  "LOCATIONS = [''GS'', ''WH'', ''FL'', ''RM'', ''WS'', ''DC'']"

definition PRODUCTLINES :: "string list" where
  "PRODUCTLINES = [''JM'', ''FG'', ''RM'', ''CM'', ''CP'']"

definition SOURCES :: "string list" where
  "SOURCES = [''M'', ''P'', ''B'', ''C'']"

definition SORTCODES :: "string list" where
  "SORTCODES = [''COMPBX'', ''HARDWARE'', ''LEVEL-1'', ''LEVEL-2'', ''ELECTRIC'', ''ELWR'',
                ''SHTCRS'', ''BARSS'', ''SHTALUM'']"

definition TEMPLATE_HEADERS :: "string list" where
  "TEMPLATE_HEADERS =
     [''PartNo'', ''Revision'', ''Description'', ''AltDescription1'', ''AltDescription2'',
      ''DescExtra'', ''Quantity'', ''IssueUM'', ''ConsumptionConv'', ''UM'', ''Cost'', ''Source'',
      ''Drawing'', ''Leadtime'', ''Level'', ''Location'', ''Memo1'', ''Memo2'', ''Parent'',
      ''Productline'', ''Sequence'', ''SortCode'', ''Tag'', ''Category'', ''BomComplete'',
      ''BomComments'', ''Router'']"

definition all_fields :: "string set" where
  "all_fields = set TEMPLATE_HEADERS"

definition uniform2 :: "int \<Rightarrow> int \<Rightarrow> gen \<Rightarrow> rat \<times> gen" where
  "uniform2 lo hi st = (of_int (lo + int (fst (draw st)) mod (hi - lo + 1)) / 100, snd (draw st))"

definition random_unit :: "gen \<Rightarrow> rat \<times> gen" where
  "random_unit st = (of_nat (fst (draw st) mod 1000) / 1000, snd (draw st))"

definition random_revision :: "gen \<Rightarrow> string \<times> gen" where
  "random_revision st =
     (case randint 1 5 st of (n, st') \<Rightarrow> (CHR ''R'' # zfill 2 (str_int n), st'))"

definition fixed :: "pyval \<Rightarrow> gen \<Rightarrow> pyval \<times> gen" where
  "fixed v st = (v, st)"

definition drawn :: "('a \<Rightarrow> pyval) \<Rightarrow> (gen \<Rightarrow> 'a \<times> gen) \<Rightarrow> gen \<Rightarrow> pyval \<times> gen" where
  "drawn f g st = (case g st of (x, st') \<Rightarrow> (f x, st'))"

definition put :: "string set \<Rightarrow> string \<Rightarrow> (gen \<Rightarrow> pyval \<times> gen) \<Rightarrow> row \<times> gen \<Rightarrow> row \<times> gen" where
  "put flds key g rs =
     (if key \<in> flds
      then (case g (snd rs) of (v, st') \<Rightarrow> ((fst rs)(key \<mapsto> v), st'))
      else rs)"

text \<open>\<open>fields_to_populate if fields_to_populate else all_fields\<close>: \<open>None\<close> and the empty set are falsy.\<close>

definition fields_or_all :: "string set option \<Rightarrow> string set" where
  "fields_or_all fields_to_populate =
     (case fields_to_populate of
        None \<Rightarrow> all_fields
      | Some fs \<Rightarrow> if fs = {} then all_fields else fs)"

definition random_row_for_child ::
  "pyval \<Rightarrow> int \<Rightarrow> int \<Rightarrow> string set option \<Rightarrow> bool \<Rightarrow> gen \<Rightarrow> row \<times> gen" where
  "random_row_for_child parent_partno sequence level fields_to_populate use_long_partno st =
     (let flds = fields_or_all fields_to_populate;
          alloc = alloc_partno use_long_partno parent_partno st;
          partno = fst alloc
      in fold (\<lambda>step. step)
           [put flds ''PartNo'' (fixed (VStr partno)),
            put flds ''Revision'' (drawn VStr random_revision),
            put flds ''Description'' (fixed (VStr (partno @ '' Desc''))),
            put flds ''AltDescription1''
              (drawn (\<lambda>n. VStr (''ALT-DESC-'' @ str_int n)) (randint 1 3)),
            put flds ''AltDescription2''
              (drawn (\<lambda>n. VStr (''ALT-DESC-'' @ str_int n)) (randint 1 3)),
            put flds ''DescExtra'' (drawn VStr (choice [''EXTRA'', ''OPTION'', ''VARIANT''])),
            put flds ''Quantity'' (drawn VInt (randint 1 10)),
            put flds ''IssueUM'' (fixed (VStr ''EA'')),
            put flds ''ConsumptionConv'' (drawn VFloat (uniform2 25 200)),
            put flds ''UM''
              (drawn VStr (choice [''EA'', ''FT'', ''M'', ''KG'', ''L'', ''P'', ''J'', ''F'', ''SF'',
                                   ''FT'', ''SI''])),
            put flds ''Cost'' (drawn VFloat (uniform2 50 25000)),
            put flds ''Source'' (drawn VStr (choice SOURCES)),
            put flds ''Drawing'' (drawn (\<lambda>n. VStr (''DRAW'' @ str_int n)) (randint 1 99)),
            put flds ''Leadtime'' (drawn VInt (randint 1 21)),
            put flds ''Level'' (fixed (VInt level)),
            put flds ''Location'' (drawn VStr (choice LOCATIONS)),
            put flds ''Memo1'' (drawn (\<lambda>n. VStr (''MEM'' @ str_int n)) (randint 1 3)),
            put flds ''Memo2'' (drawn (\<lambda>n. VStr (''MEM'' @ str_int n)) (randint 1 3)),
            put flds ''Parent'' (fixed parent_partno),
            put flds ''Productline'' (drawn VStr (choice PRODUCTLINES)),
            put flds ''Sequence'' (fixed (VInt (if sequence > 0 then sequence * 100 else 100))),
            put flds ''SortCode'' (drawn VStr (choice SORTCODES)),
            put flds ''Tag'' (drawn VStr (choice [''TG'', ''TAG1'', ''TAG2''])),
            put flds ''Category''
              (drawn (\<lambda>x. VStr (if x > 1 / 5 then ''Y'' else [])) random_unit),
            put flds ''BomComplete'' (fixed (VStr [])),
            put flds ''BomComments''
              (drawn (\<lambda>n. VStr (''BOMCOMMENTS-'' @ str_int n)) (randint 1 5)),
            put flds ''Router'' (fixed (VStr []))]
           (Map.empty, snd alloc))"

fun child_rows_loop ::
  "pyval \<Rightarrow> nat list \<Rightarrow> int \<Rightarrow> string set option \<Rightarrow> bool \<Rightarrow> gen \<Rightarrow> row list \<times> gen" where
  "child_rows_loop parent_partno [] level fields_to_populate use_long_partno st = ([], st)"
| "child_rows_loop parent_partno (i # is) level fields_to_populate use_long_partno st =
     (case random_row_for_child parent_partno (int i + 1) level fields_to_populate
             use_long_partno st of
        (r, st1) \<Rightarrow>
          (case child_rows_loop parent_partno is level fields_to_populate use_long_partno st1 of
             (rs, st2) \<Rightarrow> (r # rs, st2)))"

definition random_child_rows ::
  "pyval \<Rightarrow> int \<Rightarrow> string set option \<Rightarrow> int \<Rightarrow> bool \<Rightarrow> gen \<Rightarrow> row list \<times> gen" where
  "random_child_rows parent_partno count fields_to_populate level use_long_partno st =
     child_rows_loop parent_partno [0..<nat count] level fields_to_populate use_long_partno st"

section \<open>Schema and row writer (cli.py)\<close>

definition REQUIRED_FIELDS :: "string list" where
  "REQUIRED_FIELDS = [''PartNo'', ''Quantity'', ''Parent'', ''Sequence'']"

definition get :: "row \<Rightarrow> string \<Rightarrow> pyval" where
  "get r k = (case r k of None \<Rightarrow> VNone | Some v \<Rightarrow> v)"

definition get_default :: "row \<Rightarrow> string \<Rightarrow> pyval \<Rightarrow> pyval" where
  "get_default r k d = (case r k of None \<Rightarrow> d | Some v \<Rightarrow> v)"

definition blank :: "pyval \<Rightarrow> bool" where
  "blank v = (v = VNone \<or> v = VStr [])"

definition truthy :: "pyval \<Rightarrow> bool" where
  "truthy v = (case v of VNone \<Rightarrow> False | VStr s \<Rightarrow> s \<noteq> [] | VInt i \<Rightarrow> i \<noteq> 0
               | VFloat q \<Rightarrow> q \<noteq> 0)"

definition py_or :: "pyval \<Rightarrow> pyval \<Rightarrow> pyval" where
  "py_or a b = (if truthy a then a else b)"

definition py_eq :: "pyval \<Rightarrow> pyval \<Rightarrow> bool" where
  "py_eq a b = (case (a, b) of
                  (VInt i, VFloat q) \<Rightarrow> of_int i = q
                | (VFloat q, VInt i) \<Rightarrow> q = of_int i
                | _ \<Rightarrow> a = b)"

definition is_missing :: "row \<Rightarrow> string \<Rightarrow> bool" where
  "is_missing row_data f =
     (let val = get row_data f
      in if f = ''Parent'' \<and> val = VStr [] then False else blank val)"

datatype error = ValueError "string list" | ZeroDivisionError

type_synonym sheet = "pyval list list"

definition append_row_by_headers :: "sheet \<Rightarrow> string list \<Rightarrow> row \<Rightarrow> error + sheet" where
  "append_row_by_headers ws headers row_data =
     (let missing = filter (is_missing row_data) REQUIRED_FIELDS
      in if missing \<noteq> [] then Inl (ValueError missing)
         else Inr (ws @ [map (get row_data) headers]))"

section \<open>Row builder and validator (ui.py)\<close>

datatype label = ParentPart | Level1Part nat pyval | PartLabel pyval

datatype message =
    ParentRequired
  | MissingLevel1 nat "string list"
  | MissingPart pyval "string list"
  | PhantomSource label
  | ExcludeSource label

definition str_or_none :: "string \<Rightarrow> pyval" where
  "str_or_none s = (if s \<noteq> [] then VStr s else VNone)"

definition apply_random_row_defaults ::
  "row list \<Rightarrow> int \<Rightarrow> bool \<Rightarrow> bool \<Rightarrow> string \<Rightarrow> string \<Rightarrow> row list" where
  "apply_random_row_defaults rows manufactured_count apply_revision_to_all apply_location_to_all
       parent_revision parent_location =
     map (\<lambda>(i, row).
            let row1 = row(''UM'' \<mapsto> VStr ''EA'');
                row2 = row1(''Location'' \<mapsto>
                         (if apply_location_to_all then str_or_none parent_location else VNone));
                row3 = row2(''Revision'' \<mapsto>
                         (if apply_revision_to_all then str_or_none parent_revision else VNone));
                row4 = row3(''Category'' \<mapsto> VStr []);
                row5 = row4(''Source'' \<mapsto> VStr (if int i < manufactured_count then ''F'' else ''J''))
            in row5(''Productline'' \<mapsto>
                      VStr (if get row5 ''Source'' = VStr ''F'' then ''CP'' else ''CM'')))
         (enumerate 0 rows)"

definition validate_category_source :: "pyval \<Rightarrow> pyval \<Rightarrow> label \<Rightarrow> message option" where
  "validate_category_source category_value source_value part_label =
     (if \<not> truthy category_value then None
      else if category_value = VStr ''P'' \<and> source_value \<noteq> VStr ''M'' \<and> source_value \<noteq> VStr ''F''
      then Some (PhantomSource part_label)
      else if category_value = VStr ''X'' \<and> source_value \<noteq> VStr ''P''
      then Some (ExcludeSource part_label)
      else None)"

definition py_str :: "(rat \<Rightarrow> string) \<Rightarrow> pyval \<Rightarrow> string" where
  "py_str float_str v =
     (case v of VNone \<Rightarrow> ''None'' | VStr s \<Rightarrow> s | VInt i \<Rightarrow> str_int i | VFloat q \<Rightarrow> float_str q)"

definition py_space :: "char \<Rightarrow> bool" where
  "py_space c = (of_char c \<in> {9, 10, 11, 12, 13, 28, 29, 30, 31, 32, 133, 160 :: nat})"

definition py_strip :: "string \<Rightarrow> string" where
  "py_strip s = rev (dropWhile py_space (rev (dropWhile py_space s)))"

definition clear_self_parent :: "(rat \<Rightarrow> string) \<Rightarrow> row \<Rightarrow> row" where
  "clear_self_parent float_str row =
     (if truthy (get row ''PartNo'') \<and> truthy (get row ''Parent'') \<and>
         py_strip (py_str float_str (get row ''PartNo'')) =
         py_strip (py_str float_str (get row ''Parent''))
      then row(''Parent'' \<mapsto> VStr [])
      else row)"


text \<open>
  A group of \<open>level2_config\<close> or \<open>level3_config\<close>: the dictionary with the keys
  \<open>parent\<close>, \<open>count\<close>, \<open>random\<close>, \<open>fields\<close>, \<open>manufactured_count\<close> and
  \<open>manual_rows\<close>; a key the source leaves out holds the default that \<open>cfg.get\<close> gives.
\<close>

record group_cfg =
  cfg_parent :: pyval
  cfg_count :: nat
  cfg_random :: bool
  cfg_fields :: "string list"
  cfg_manufactured_count :: int
  cfg_manual_rows :: "row list"

text \<open>The dictionaries \<open>random_l2_per_l1\<close> and \<open>random_l3_per_l2\<close>.\<close>

record per_parent_cfg =
  pp_count :: nat
  pp_fields :: "string list"
  pp_manufactured_count :: int

text \<open>What the user enters for one group, and for a whole level.\<close>

record group_input =
  parent_choice :: nat
  count_in :: nat
  use_random :: bool
  grp_manufactured :: int
  grp_fields :: "string list"
  entered :: "nat \<Rightarrow> row"

record level_input =
  per_parent_in :: "per_parent_cfg option"
  num_groups_in :: nat
  random_all_in :: bool
  all_manufactured_in :: int
  fields_all_in :: "string list"
  groups_in :: "nat \<Rightarrow> group_input"

datatype notice =
    NoManufacturedLevel1
  | NoManufacturedLevel2
  | NoManualLevel2
  | Level3NeedsManualLevel2

record level_result =
  notices :: "notice list"
  config :: "group_cfg list"
  manual_partnos :: "pyval list"
  per_parent :: "per_parent_cfg option"

definition manufactured_code :: "pyval \<Rightarrow> bool" where
  "manufactured_code v = (v = VStr ''M'' \<or> v = VStr ''F'')"

definition level1_partnos :: "row list \<Rightarrow> pyval list" where
  "level1_partnos child_data =
     map (\<lambda>c. get c ''PartNo'') (filter (\<lambda>c. truthy (get c ''PartNo'')) child_data)"

definition first_source :: "row list \<Rightarrow> pyval \<Rightarrow> pyval" where
  "first_source child_data pno =
     (case find (\<lambda>c. py_eq (get c ''PartNo'') pno) child_data of
        None \<Rightarrow> VNone
      | Some c \<Rightarrow> get c ''Source'')"

definition level1_partnos_manufactured :: "row list \<Rightarrow> pyval list" where
  "level1_partnos_manufactured child_data =
     filter (\<lambda>pno. manufactured_code (first_source child_data pno)) (level1_partnos child_data)"

definition any_l1_manufactured :: "row list \<Rightarrow> bool" where
  "any_l1_manufactured child_data =
     list_ex (\<lambda>c. manufactured_code (get c ''Source''))
       (filter (\<lambda>c. truthy (get c ''PartNo'')) child_data)"

definition block_l2 :: "row list \<Rightarrow> bool" where
  "block_l2 child_data = (level1_partnos child_data \<noteq> [] \<and> \<not> any_l1_manufactured child_data)"

text \<open>\<open>st.selectbox(label, options, index=0)\<close>: the option the user picks, \<open>None\<close> when there is none.\<close>

definition selectbox :: "pyval list \<Rightarrow> nat \<Rightarrow> pyval" where
  "selectbox options pick =
     (if options = [] then VNone else options ! min pick (length options - 1))"

definition per_parent_of :: "per_parent_cfg option \<Rightarrow> per_parent_cfg option" where
  "per_parent_of inp =
     map_option (\<lambda>c. c\<lparr>pp_manufactured_count := min (pp_manufactured_count c) (int (pp_count c))\<rparr>)
       inp"

definition random_all_groups :: "pyval list \<Rightarrow> level_input \<Rightarrow> nat \<Rightarrow> group_cfg list" where
  "random_all_groups parents ui n =
     map (\<lambda>g. \<lparr>cfg_parent = parents ! (g mod length parents), cfg_count = 2, cfg_random = True,
                cfg_fields = fields_all_in ui,
                cfg_manufactured_count = min (all_manufactured_in ui) 2,
                cfg_manual_rows = []\<rparr>)
       [0..<n]"

definition manual_group_rows :: "pyval \<Rightarrow> int \<Rightarrow> group_input \<Rightarrow> row list" where
  "manual_group_rows parent level gi =
     map (\<lambda>j. (entered gi j)(''Parent'' \<mapsto> parent, ''Level'' \<mapsto> VInt level,
                               ''Sequence'' \<mapsto> VInt (int j + 1)))
       [0..<count_in gi]"

definition group_of :: "pyval list \<Rightarrow> int \<Rightarrow> group_input \<Rightarrow> group_cfg" where
  "group_of options level gi =
     (let parent = selectbox options (parent_choice gi)
      in if use_random gi
         then \<lparr>cfg_parent = parent, cfg_count = count_in gi, cfg_random = True,
               cfg_fields = grp_fields gi,
               cfg_manufactured_count = min (grp_manufactured gi) (int (count_in gi)),
               cfg_manual_rows = []\<rparr>
         else \<lparr>cfg_parent = parent, cfg_count = count_in gi, cfg_random = False,
               cfg_fields = [], cfg_manufactured_count = 0,
               cfg_manual_rows = manual_group_rows parent level gi\<rparr>)"

definition entered_partnos :: "group_cfg list \<Rightarrow> pyval list" where
  "entered_partnos cfgs = concat (map (\<lambda>c. map (\<lambda>r. get r ''PartNo'') (cfg_manual_rows c)) cfgs)"

definition level2_section :: "row list \<Rightarrow> level_input \<Rightarrow> error + level_result" where
  "level2_section child_data ui =
     (if level1_partnos child_data = []
      then Inr \<lparr>notices = [], config = [], manual_partnos = [], per_parent = None\<rparr>
      else if block_l2 child_data
      then Inr \<lparr>notices = [NoManufacturedLevel1], config = [], manual_partnos = [],
                per_parent = None\<rparr>
      else
        (let num_l2_groups = num_groups_in ui;
             random_all_l2 = (num_l2_groups > 0 \<and> random_all_in ui);
             parents = level1_partnos_manufactured child_data
         in if random_all_l2
            then (if parents = [] then Inl ZeroDivisionError
                  else Inr \<lparr>notices = [],
                            config = random_all_groups parents ui num_l2_groups,
                            manual_partnos = [], per_parent = per_parent_of (per_parent_in ui)\<rparr>)
            else (let cfgs = map (\<lambda>g. group_of parents 2 (groups_in ui g)) [0..<num_l2_groups]
                  in Inr \<lparr>notices = [], config = cfgs, manual_partnos = entered_partnos cfgs,
                            per_parent = per_parent_of (per_parent_in ui)\<rparr>)))"

definition level2_partnos_for_l3 :: "pyval list \<Rightarrow> pyval list" where
  "level2_partnos_for_l3 level2_manual_partnos = filter truthy level2_manual_partnos"

definition level2_partno_to_source :: "group_cfg list \<Rightarrow> (pyval \<rightharpoonup> pyval)" where
  "level2_partno_to_source level2_config =
     foldl (\<lambda>d r. if truthy (get r ''PartNo'') then d(get r ''PartNo'' \<mapsto> get r ''Source'') else d)
       Map.empty (concat (map cfg_manual_rows level2_config))"

definition source_of :: "(pyval \<rightharpoonup> pyval) \<Rightarrow> pyval \<Rightarrow> pyval" where
  "source_of d pno = (case d pno of None \<Rightarrow> VNone | Some v \<Rightarrow> v)"

definition level2_partnos_manufactured :: "group_cfg list \<Rightarrow> pyval list \<Rightarrow> pyval list" where
  "level2_partnos_manufactured level2_config level2_manual_partnos =
     filter (\<lambda>pno. manufactured_code (source_of (level2_partno_to_source level2_config) pno))
       (level2_partnos_for_l3 level2_manual_partnos)"

definition any_l2_manufactured :: "group_cfg list \<Rightarrow> pyval list \<Rightarrow> bool" where
  "any_l2_manufactured level2_config level2_manual_partnos =
     list_ex (\<lambda>pno. manufactured_code (source_of (level2_partno_to_source level2_config) pno))
       (level2_partnos_for_l3 level2_manual_partnos)"

definition block_l3 :: "group_cfg list \<Rightarrow> pyval list \<Rightarrow> bool" where
  "block_l3 level2_config level2_manual_partnos =
     (level2_partnos_for_l3 level2_manual_partnos \<noteq> [] \<and>
      \<not> any_l2_manufactured level2_config level2_manual_partnos)"

definition level3_section ::
  "row list \<Rightarrow> group_cfg list \<Rightarrow> pyval list \<Rightarrow> level_input \<Rightarrow> level_result" where
  "level3_section child_data level2_config level2_manual_partnos ui =
     (if level1_partnos child_data = []
      then \<lparr>notices = [], config = [], manual_partnos = [], per_parent = None\<rparr>
      else if block_l3 level2_config level2_manual_partnos
      then \<lparr>notices = [NoManufacturedLevel2], config = [], manual_partnos = [],
             per_parent = None\<rparr>
      else
        (let for_l3 = level2_partnos_for_l3 level2_manual_partnos;
             parents = level2_partnos_manufactured level2_config level2_manual_partnos;
             info = (if for_l3 = [] then [NoManualLevel2] else []);
             num_l3_groups = num_groups_in ui;
             random_all_l3 = (num_l3_groups > 0 \<and> parents \<noteq> [] \<and> random_all_in ui)
         in if random_all_l3
            then \<lparr>notices = info, config = random_all_groups parents ui num_l3_groups,
                  manual_partnos = [], per_parent = per_parent_of (per_parent_in ui)\<rparr>
            else if num_l3_groups > 0 \<and> for_l3 = []
            then \<lparr>notices = info @ [Level3NeedsManualLevel2], config = [], manual_partnos = [],
                  per_parent = per_parent_of (per_parent_in ui)\<rparr>
            else (let cfgs = map (\<lambda>g. group_of parents 3 (groups_in ui g)) [0..<num_l3_groups]
                  in \<lparr>notices = info, config = cfgs, manual_partnos = entered_partnos cfgs,
                       per_parent = per_parent_of (per_parent_in ui)\<rparr>)))"

text \<open>
  Everything the handler of the "Generate BOM" button reads: the parent form, the Level 1
  rows and the group configurations collected upper_rows it, and the header row of the template.
\<close>

record bom_input =
  parent_row :: "row option"
  parent_partno :: string
  parent_revision :: string
  parent_location :: string
  apply_revision_to_all :: bool
  apply_location_to_all :: bool
  sequence_increment :: int
  child_data :: "row list"
  random_l2_per_l1 :: "per_parent_cfg option"
  level2_config :: "group_cfg list"
  random_l3_per_l2 :: "per_parent_cfg option"
  level3_config :: "group_cfg list"
  output_headers :: "string list"

definition missing_fields :: "row \<Rightarrow> string list" where
  "missing_fields r = filter (\<lambda>f. blank (get r f)) REQUIRED_FIELDS"

definition validate_parent :: "row option \<Rightarrow> message list" where
  "validate_parent pr =
     (case pr of
        None \<Rightarrow> [ParentRequired]
      | Some p \<Rightarrow>
          if p = Map.empty then [ParentRequired]
          else (case validate_category_source (get p ''Category'') (get p ''Source'') ParentPart of
                  None \<Rightarrow> []
                | Some err \<Rightarrow> [err]))"

definition validate_child :: "nat \<Rightarrow> row \<Rightarrow> message list" where
  "validate_child idx child =
     (let missing = missing_fields child
      in if missing \<noteq> [] then [MissingLevel1 idx missing]
         else (case validate_category_source (get child ''Category'') (get child ''Source'')
                      (Level1Part idx (get_default child ''PartNo'' (VStr []))) of
                 None \<Rightarrow> []
               | Some err \<Rightarrow> [err]))"

definition validate_part :: "row \<Rightarrow> message list" where
  "validate_part r =
     (let missing = missing_fields r
      in if missing \<noteq> [] then [MissingPart (get r ''PartNo'') missing]
         else (case validate_category_source (get r ''Category'') (get r ''Source'')
                      (PartLabel (get_default r ''PartNo'' (VStr []))) of
                 None \<Rightarrow> []
               | Some err \<Rightarrow> [err]))"

definition fset_of :: "string list \<Rightarrow> string set option" where
  "fset_of fs = Some (set fs \<union> {''Parent'', ''Sequence'', ''Level'', ''PartNo'', ''Quantity''})"

text \<open>\<open>f(rows[a:b])\<close> for an \<open>f\<close> that changes the rows of the slice in place.\<close>

definition update_slice :: "nat \<Rightarrow> nat \<Rightarrow> (row list \<Rightarrow> row list) \<Rightarrow> row list \<Rightarrow> row list" where
  "update_slice a b f rows =
     (let batch = take (b - a) (drop a rows)
      in take a rows @ f batch @ drop (a + length batch) rows)"

definition row_defaults :: "bom_input \<Rightarrow> int \<Rightarrow> row list \<Rightarrow> row list" where
  "row_defaults inp manufactured_count rows =
     apply_random_row_defaults rows manufactured_count (apply_revision_to_all inp)
       (apply_location_to_all inp) (parent_revision inp) (parent_location inp)"

text \<open>The loop \<open>for p in parents: rows.extend(random_child_rows(p["PartNo"], count, ...))\<close>.\<close>

fun extend_random ::
  "row list \<Rightarrow> nat \<Rightarrow> string set option \<Rightarrow> int \<Rightarrow> row list \<times> gen \<Rightarrow> row list \<times> gen" where
  "extend_random [] count_r fset level acc = acc"
| "extend_random (p # ps) count_r fset level acc =
     (case random_child_rows (get p ''PartNo'') (int count_r) fset level False (snd acc) of
        (new, st') \<Rightarrow> extend_random ps count_r fset level (fst acc @ new, st'))"

text \<open>Steps 1 and 3: random rows under every manufactured row of the level upper_rows.\<close>

definition random_per_parent ::
  "bom_input \<Rightarrow> per_parent_cfg \<Rightarrow> row list \<Rightarrow> int \<Rightarrow> row list \<times> gen \<Rightarrow> row list \<times> gen" where
  "random_per_parent inp cfg upper_rows level acc =
     (let fset = fset_of (pp_fields cfg);
          count_r = pp_count cfg;
          mfg_count = pp_manufactured_count cfg;
          start = length (fst acc);
          manufactured = filter (\<lambda>c. manufactured_code (get c ''Source'')) upper_rows;
          ext = extend_random manufactured count_r fset level acc
      in (fold (\<lambda>i rows. update_slice (start + i * count_r) (start + (i + 1) * count_r)
                             (row_defaults inp mfg_count) rows)
            [0..<length manufactured] (fst ext),
          snd ext))"

definition MANUAL_KEYS :: "string list" where
  "MANUAL_KEYS =
     [''PartNo'', ''Description'', ''Quantity'', ''UM'', ''Source'', ''Category'', ''Productline'',
      ''Revision'', ''Location'', ''AltDescription1'', ''AltDescription2'', ''DescExtra'',
      ''IssueUM'', ''ConsumptionConv'', ''Cost'', ''Drawing'', ''Leadtime'', ''Memo1'', ''Memo2'',
      ''SortCode'', ''Tag'', ''BomComplete'', ''BomComments'', ''Router'']"

definition manual_row :: "pyval \<Rightarrow> int \<Rightarrow> row \<Rightarrow> row" where
  "manual_row parent level r =
     (let row0 = (\<lambda>h. if h \<in> set TEMPLATE_HEADERS then Some VNone else None);
          row1 = fold (\<lambda>key row. if r key \<noteq> None \<and> r key \<noteq> Some VNone
                                  then row(key \<mapsto> get r key) else row) MANUAL_KEYS row0;
          row2 = row1(''UM'' \<mapsto> py_or (get row1 ''UM'') (VStr ''EA''))
      in row2(''IssueUM'' \<mapsto> get r ''IssueUM'',
              ''ConsumptionConv'' \<mapsto> get r ''ConsumptionConv'',
              ''Parent'' \<mapsto> parent,
              ''Level'' \<mapsto> VInt level,
              ''Sequence'' \<mapsto> get_default r ''Sequence'' (VInt 0)))"

text \<open>Steps 2 and 4: one group, random or manual.\<close>

definition add_group :: "bom_input \<Rightarrow> int \<Rightarrow> group_cfg \<Rightarrow> row list \<times> gen \<Rightarrow> row list \<times> gen" where
  "add_group inp level cfg acc =
     (if cfg_random cfg
      then (let fset = fset_of (cfg_fields cfg);
                start = length (fst acc)
            in case random_child_rows (cfg_parent cfg) (int (cfg_count cfg)) fset level False
                      (snd acc) of
                 (new, st') \<Rightarrow>
                   (update_slice start (length (fst acc @ new))
                      (row_defaults inp (cfg_manufactured_count cfg)) (fst acc @ new),
                    st'))
      else (fst acc @ map (manual_row (cfg_parent cfg) level) (cfg_manual_rows cfg), snd acc))"

definition assemble_level ::
  "bom_input \<Rightarrow> per_parent_cfg option \<Rightarrow> bool \<Rightarrow> group_cfg list \<Rightarrow> row list \<Rightarrow> int \<Rightarrow> gen \<Rightarrow>
   row list \<times> gen" where
  "assemble_level inp pp enabled cfgs upper_rows level st =
     (let acc1 = (case pp of
                    Some cfg \<Rightarrow> if enabled then random_per_parent inp cfg upper_rows level ([], st)
                                else ([], st)
                  | None \<Rightarrow> ([], st))
      in fold (add_group inp level) cfgs acc1)"

definition resequence :: "int \<Rightarrow> row list \<Rightarrow> row list" where
  "resequence inc rows =
     map (\<lambda>(idx, r). r(''Sequence'' \<mapsto> VInt ((int idx + 1) * inc))) (enumerate 0 rows)"

definition override :: "bool \<Rightarrow> string \<Rightarrow> string \<Rightarrow> row list \<Rightarrow> row list" where
  "override apply field parent_value rows =
     (if apply then map (\<lambda>r. r(field \<mapsto> str_or_none parent_value)) rows else rows)"

definition apply_overrides :: "bom_input \<Rightarrow> row list \<Rightarrow> row list" where
  "apply_overrides inp rows =
     override (apply_location_to_all inp) ''Location'' (parent_location inp)
       (override (apply_revision_to_all inp) ''Revision'' (parent_revision inp) rows)"

text \<open>The state when the handler decides between the error report and the output file.\<close>

record assembled =
  errors :: "message list"
  level1_rows :: "row list"
  level2_rows :: "row list"
  level3_rows :: "row list"

definition build_rows :: "bom_input \<Rightarrow> gen \<Rightarrow> assembled \<times> gen" where
  "build_rows inp st =
     (let errors1 = validate_parent (parent_row inp) @
                    concat (map (\<lambda>(i, child). validate_child (i + 1) child)
                              (enumerate 0 (child_data inp)))
      in if errors1 \<noteq> []
         then (\<lparr>errors = errors1, level1_rows = child_data inp, level2_rows = [],
                 level3_rows = []\<rparr>, st)
         else
           (case assemble_level inp (random_l2_per_l1 inp) True (level2_config inp)
                   (child_data inp) 2 st of
              (l2, st2) \<Rightarrow>
                (case assemble_level inp (random_l3_per_l2 inp) (l2 \<noteq> []) (level3_config inp)
                        l2 3 st2 of
                   (l3, st3) \<Rightarrow>
                     (let inc = sequence_increment inp;
                          children = resequence inc (child_data inp);
                          rows2 = resequence inc l2;
                          rows3 = resequence inc l3;
                          errors2 = concat (map validate_part (rows2 @ rows3))
                      in (\<lparr>errors = errors2,
                            level1_rows = apply_overrides inp children,
                            level2_rows = apply_overrides inp rows2,
                            level3_rows = apply_overrides inp rows3\<rparr>, st3)))))"

definition parent_values :: "bom_input \<Rightarrow> string list \<Rightarrow> pyval list" where
  "parent_values inp headers =
     map (\<lambda>h. if h = ''Parent'' then VStr (parent_partno inp)
               else (case get (case parent_row inp of Some p \<Rightarrow> p | None \<Rightarrow> Map.empty) h of
                       VNone \<Rightarrow> VStr []
                     | v \<Rightarrow> v))
       headers"

fun append_rows :: "string list \<Rightarrow> row list \<Rightarrow> sheet \<Rightarrow> error + sheet" where
  "append_rows headers [] ws = Inr ws"
| "append_rows headers (r # rs) ws =
     (case append_row_by_headers ws headers r of
        Inl e \<Rightarrow> Inl e
      | Inr ws' \<Rightarrow> append_rows headers rs ws')"

definition write_bom :: "(rat \<Rightarrow> string) \<Rightarrow> bom_input \<Rightarrow> assembled \<Rightarrow> error + sheet" where
  "write_bom float_str inp a =
     append_rows (output_headers inp)
       (map (clear_self_parent float_str) (level1_rows a @ level2_rows a @ level3_rows a))
       [parent_values inp (output_headers inp)]"

datatype outcome = Errors "message list" | Written sheet | Raised error

definition generate_bom :: "(rat \<Rightarrow> string) \<Rightarrow> bom_input \<Rightarrow> gen \<Rightarrow> outcome" where
  "generate_bom float_str inp st =
     (let a = fst (build_rows inp st)
      in if errors a \<noteq> [] then Errors (errors a)
         else (case write_bom float_str inp a of
                 Inl e \<Rightarrow> Raised e
               | Inr ws \<Rightarrow> Written ws))"

section \<open>Example inputs\<close>

definition ex_gen :: gen where
  "ex_gen = \<lparr>part_number_counter = 0, rnd = (\<lambda>i. 7 * i + 3)\<rparr>"

definition ex_item :: "string \<Rightarrow> rat \<Rightarrow> BOMItem" where
  "ex_item pn q = \<lparr>part_number = pn, description = pn @ '' part'', quantity = Fin q,
                   unit = ''EA'', reference_designator = None, notes_ = None\<rparr>"

definition ex_bom :: "BOMItem list \<Rightarrow> BOM" where
  "ex_bom its = \<lparr>name = ''bom'', version = ''1'', date = 0, items = its, metadata = None\<rparr>"

text \<open>BOM1 = {P1 qty 2, P2 qty 5} against BOM2 = {P2 qty 5, P3 qty 1}.\<close>

definition ex_cmp :: "BOMItem list \<Rightarrow> BOMItem list \<Rightarrow> BOMComparison" where
  "ex_cmp a u = \<lparr>bom1 = ex_bom [ex_item ''P1'' 2, ex_item ''P2'' 5],
         bom2 = ex_bom [ex_item ''P2'' 5, ex_item ''P3'' 1], added_items = a, removed_items = [],
         modified_items = [], unchanged_items = u\<rparr>"

(*PROPERTIES*)
section \<open>Properties of the diff engine\<close>

lemma item_dict_Nil: "item_dict [] = Map.empty"
  by (simp add: item_dict_def)

lemma item_dict_snoc:
  "item_dict (its @ [x]) = (item_dict its)(part_number x \<mapsto> x)"
  by (simp add: item_dict_def)

lemma item_dict_last:
  "item_dict its pn = find (\<lambda>item. part_number item = pn) (rev its)"
  by (induction its rule: rev_induct) (simp_all add: item_dict_snoc item_dict_Nil)

lemma item_dict_key:
  "item_dict its pn = Some item \<Longrightarrow> part_number item = pn \<and> item \<in> set its"
  by (induction its rule: rev_induct)
     (simp_all add: item_dict_snoc item_dict_Nil split: if_splits)

lemma item_dict_None:
  "item_dict its pn = None \<longleftrightarrow> pn \<notin> part_number ` set its"
  by (induction its rule: rev_induct)
     (simp_all add: item_dict_snoc item_dict_Nil)

lemma set_part_numbers: "set (part_numbers its) = part_number ` set its"
  by (simp add: part_numbers_def)

lemma lookup_all_Nil: "lookup_all d [] = []"
  by (simp add: lookup_all_def List.map_filter_simps)

lemma lookup_all_Cons:
  "lookup_all d (p # ps) = (case d p of None \<Rightarrow> lookup_all d ps | Some i \<Rightarrow> i # lookup_all d ps)"
  by (cases "d p") (simp_all add: lookup_all_def List.map_filter_simps)

lemma set_lookup_all:
  "set (lookup_all d parts) = {item. \<exists>p \<in> set parts. d p = Some item}"
proof (induction parts)
  case Nil
  show ?case by (simp add: lookup_all_Nil)
next
  case (Cons p ps)
  show ?case
  proof (cases "d p")
    case None
    then show ?thesis using Cons by (auto simp: lookup_all_Cons)
  next
    case (Some i)
    then show ?thesis using Cons by (auto simp: lookup_all_Cons)
  qed
qed

lemma classify_fold_fst:
  "set (fst (foldl (classify_part d1 d2) acc parts)) =
     set (fst acc) \<union> {(i1, i2). \<exists>p \<in> set parts. d1 p = Some i1 \<and> d2 p = Some i2 \<and> item_modified i1 i2}"
proof (induction parts arbitrary: acc)
  case Nil
  show ?case by simp
next
  case (Cons p ps)
  show ?case
    unfolding foldl_Cons Cons.IH
    by (cases "d1 p"; cases "d2 p") (auto simp: classify_part_def)
qed

lemma classify_fold_snd:
  "set (snd (foldl (classify_part d1 d2) acc parts)) =
     set (snd acc) \<union> {i1. \<exists>p \<in> set parts. \<exists>i2. d1 p = Some i1 \<and> d2 p = Some i2 \<and> \<not> item_modified i1 i2}"
proof (induction parts arbitrary: acc)
  case Nil
  show ?case by simp
next
  case (Cons p ps)
  show ?case
    unfolding foldl_Cons Cons.IH
    by (cases "d1 p"; cases "d2 p") (auto simp: classify_part_def)
qed

lemma dict_keys_filter:
  assumes "\<And>p i. d p = Some i \<Longrightarrow> p \<in> K"
  shows "{item. \<exists>p \<in> {p \<in> K. P p}. d p = Some item} = {i. \<exists>p. d p = Some i \<and> P p}"
  using assms by blast

lemma dict_keys_filter2:
  assumes "\<And>p i. d p = Some i \<Longrightarrow> p \<in> K"
  shows "{(i1, i2). \<exists>p \<in> {p \<in> K. P p}. d p = Some i1 \<and> Q p i1 i2} =
         {(i1, i2). \<exists>p. d p = Some i1 \<and> P p \<and> Q p i1 i2}"
  using assms by blast

lemma item_dict_dom:
  "item_dict its p = Some i \<Longrightarrow> p \<in> part_number ` set its"
  using item_dict_None[of its p] by simp

lemma item_dict_in_keys:
  "p \<in> part_number ` set its \<longleftrightarrow> (\<exists>i. item_dict its p = Some i)"
  using item_dict_None[of its p] by (cases "item_dict its p") simp_all

lemma calculate_differences_sets:
  fixes c :: BOMComparison
  defines "its1 \<equiv> items (bom1 c)" and "its2 \<equiv> items (bom2 c)"
  defines "r \<equiv> calculate_differences c"
  shows "set (removed_items r) =
           {i. \<exists>p. item_dict its1 p = Some i \<and> item_dict its2 p = None}"
    and "set (added_items r) =
           {i. \<exists>p. item_dict its2 p = Some i \<and> item_dict its1 p = None}"
    and "set (modified_items r) =
           {(i1, i2). \<exists>p. item_dict its1 p = Some i1 \<and> item_dict its2 p = Some i2 \<and> item_modified i1 i2}"
    and "set (unchanged_items r) =
           {i1. \<exists>p i2. item_dict its1 p = Some i1 \<and> item_dict its2 p = Some i2 \<and> \<not> item_modified i1 i2}"
proof -
  define K1 where "K1 = part_number ` set its1"
  define K2 where "K2 = part_number ` set its2"
  define d1 where "d1 = item_dict its1"
  define d2 where "d2 = item_dict its2"
  have k1: "\<And>p i. d1 p = Some i \<Longrightarrow> p \<in> K1"
    unfolding d1_def K1_def by (rule item_dict_dom)
  have k2: "\<And>p i. d2 p = Some i \<Longrightarrow> p \<in> K2"
    unfolding d2_def K2_def by (rule item_dict_dom)
  have n1: "\<And>p. d1 p = None \<longleftrightarrow> p \<notin> K1"
    unfolding d1_def K1_def by (rule item_dict_None)
  have n2: "\<And>p. d2 p = None \<longleftrightarrow> p \<notin> K2"
    unfolding d2_def K2_def by (rule item_dict_None)
  have i2: "\<And>p. p \<in> K2 \<longleftrightarrow> (\<exists>i. d2 p = Some i)"
    unfolding d2_def K2_def by (rule item_dict_in_keys)
  have rm: "removed_items r = lookup_all d1 (filter (\<lambda>p. p \<notin> K2) (part_numbers its1))"
    by (simp add: r_def calculate_differences_def Let_def its1_def its2_def d1_def K2_def
        set_part_numbers)
  have ad: "added_items r = lookup_all d2 (filter (\<lambda>p. p \<notin> K1) (part_numbers its2))"
    by (simp add: r_def calculate_differences_def Let_def its1_def its2_def d2_def K1_def
        set_part_numbers)
  have md: "modified_items r = fst (foldl (classify_part d1 d2) ([], [])
              (filter (\<lambda>p. p \<in> K2) (part_numbers its1)))"
    by (simp add: r_def calculate_differences_def Let_def its1_def its2_def d1_def d2_def K2_def
        set_part_numbers)
  have un: "unchanged_items r = snd (foldl (classify_part d1 d2) ([], [])
              (filter (\<lambda>p. p \<in> K2) (part_numbers its1)))"
    by (simp add: r_def calculate_differences_def Let_def its1_def its2_def d1_def d2_def K2_def
        set_part_numbers)
  have s1: "set (filter (\<lambda>p. p \<notin> K2) (part_numbers its1)) = {p \<in> K1. p \<notin> K2}"
    by (simp add: set_part_numbers K1_def)
  have s2: "set (filter (\<lambda>p. p \<notin> K1) (part_numbers its2)) = {p \<in> K2. p \<notin> K1}"
    by (simp add: set_part_numbers K2_def)
  have s3: "set (filter (\<lambda>p. p \<in> K2) (part_numbers its1)) = {p \<in> K1. p \<in> K2}"
    by (simp add: set_part_numbers K1_def)
  have "set (removed_items r) = {i. \<exists>p. d1 p = Some i \<and> p \<notin> K2}"
    unfolding rm set_lookup_all s1 using k1 by (rule dict_keys_filter)
  then show "set (removed_items r) =
           {i. \<exists>p. item_dict its1 p = Some i \<and> item_dict its2 p = None}"
    using n2 by (simp add: d1_def d2_def)
  have "set (added_items r) = {i. \<exists>p. d2 p = Some i \<and> p \<notin> K1}"
    unfolding ad set_lookup_all s2 using k2 by (rule dict_keys_filter)
  then show "set (added_items r) =
           {i. \<exists>p. item_dict its2 p = Some i \<and> item_dict its1 p = None}"
    using n1 by (simp add: d1_def d2_def)
  have "set (modified_items r) =
          {(i1, i2). \<exists>p. d1 p = Some i1 \<and> p \<in> K2 \<and> (d2 p = Some i2 \<and> item_modified i1 i2)}"
    unfolding md classify_fold_fst s3 using k1 by auto
  also have "\<dots> = {(i1, i2). \<exists>p. d1 p = Some i1 \<and> d2 p = Some i2 \<and> item_modified i1 i2}"
    using i2 by blast
  finally show "set (modified_items r) =
           {(i1, i2). \<exists>p. item_dict its1 p = Some i1 \<and> item_dict its2 p = Some i2 \<and> item_modified i1 i2}"
    unfolding d1_def d2_def .
  have "set (unchanged_items r) =
          {i1. \<exists>p. d1 p = Some i1 \<and> (\<exists>i2. d2 p = Some i2 \<and> \<not> item_modified i1 i2)}"
    unfolding un classify_fold_snd s3 using k1 i2 by auto
  also have "\<dots> = {i1. \<exists>p i2. d1 p = Some i1 \<and> d2 p = Some i2 \<and> \<not> item_modified i1 i2}"
    by blast
  finally show "set (unchanged_items r) =
           {i1. \<exists>p i2. item_dict its1 p = Some i1 \<and> item_dict its2 p = Some i2 \<and> \<not> item_modified i1 i2}"
    unfolding d1_def d2_def .
qed

lemma item_dict_pn: "item_dict its p = Some i \<Longrightarrow> part_number i = p"
  using item_dict_key by blast

lemma keys_lookup_all:
  assumes "\<And>p i. d p = Some i \<Longrightarrow> part_number i = p"
  shows "map part_number (lookup_all d parts) = filter (\<lambda>p. d p \<noteq> None) parts"
proof (induction parts)
  case Nil
  show ?case by (simp add: lookup_all_Nil)
next
  case (Cons p ps)
  show ?case
  proof (cases "d p")
    case None
    then show ?thesis using Cons by (simp add: lookup_all_Cons)
  next
    case (Some i)
    then show ?thesis using Cons assms[OF Some] by (simp add: lookup_all_Cons)
  qed
qed

lemma keys_classify_fst:
  assumes "\<And>p i. d1 p = Some i \<Longrightarrow> part_number i = p"
  shows "map (part_number \<circ> fst) (fst (foldl (classify_part d1 d2) acc parts)) =
         map (part_number \<circ> fst) (fst acc) @
         filter (\<lambda>p. \<exists>i1 i2. d1 p = Some i1 \<and> d2 p = Some i2 \<and> item_modified i1 i2) parts"
proof (induction parts arbitrary: acc)
  case Nil
  show ?case by simp
next
  case (Cons p ps)
  show ?case
    unfolding foldl_Cons Cons.IH
    using assms by (cases "d1 p"; cases "d2 p") (auto simp: classify_part_def)
qed

lemma keys_classify_snd:
  assumes "\<And>p i. d1 p = Some i \<Longrightarrow> part_number i = p"
  shows "map part_number (snd (foldl (classify_part d1 d2) acc parts)) =
         map part_number (snd acc) @
         filter (\<lambda>p. \<exists>i1 i2. d1 p = Some i1 \<and> d2 p = Some i2 \<and> \<not> item_modified i1 i2) parts"
proof (induction parts arbitrary: acc)
  case Nil
  show ?case by simp
next
  case (Cons p ps)
  show ?case
    unfolding foldl_Cons Cons.IH
    using assms by (cases "d1 p"; cases "d2 p") (auto simp: classify_part_def)
qed

lemma calculate_differences_distinct:
  fixes c :: BOMComparison
  defines "r \<equiv> calculate_differences c"
  shows "distinct (map part_number (removed_items r))"
    and "distinct (map part_number (added_items r))"
    and "distinct (map (part_number \<circ> fst) (modified_items r))"
    and "distinct (map part_number (unchanged_items r))"
    and "set (map (part_number \<circ> fst) (modified_items r)) \<inter>
         set (map part_number (unchanged_items r)) = {}"
proof -
  have pn1: "\<And>p i. item_dict (items (bom1 c)) p = Some i \<Longrightarrow> part_number i = p"
    by (rule item_dict_pn)
  have pn2: "\<And>p i. item_dict (items (bom2 c)) p = Some i \<Longrightarrow> part_number i = p"
    by (rule item_dict_pn)
  have dp: "\<And>its. distinct (part_numbers its)"
    by (simp add: part_numbers_def)
  show "distinct (map part_number (removed_items r))"
    by (simp add: r_def calculate_differences_def Let_def keys_lookup_all[OF pn1] dp)
  show "distinct (map part_number (added_items r))"
    by (simp add: r_def calculate_differences_def Let_def keys_lookup_all[OF pn2] dp)
  show "distinct (map (part_number \<circ> fst) (modified_items r))"
    by (simp add: r_def calculate_differences_def Let_def keys_classify_fst[OF pn1] dp)
  show "distinct (map part_number (unchanged_items r))"
    by (simp add: r_def calculate_differences_def Let_def keys_classify_snd[OF pn1] dp)
  have m: "map (part_number \<circ> fst) (modified_items r) =
        filter (\<lambda>p. \<exists>i1 i2. item_dict (items (bom1 c)) p = Some i1 \<and>
                 item_dict (items (bom2 c)) p = Some i2 \<and> item_modified i1 i2)
          (filter (\<lambda>p. p \<in> set (part_numbers (items (bom2 c)))) (part_numbers (items (bom1 c))))"
    by (simp add: r_def calculate_differences_def Let_def keys_classify_fst[OF pn1])
  have u: "map part_number (unchanged_items r) =
        filter (\<lambda>p. \<exists>i1 i2. item_dict (items (bom1 c)) p = Some i1 \<and>
                 item_dict (items (bom2 c)) p = Some i2 \<and> \<not> item_modified i1 i2)
          (filter (\<lambda>p. p \<in> set (part_numbers (items (bom2 c)))) (part_numbers (items (bom1 c))))"
    by (simp add: r_def calculate_differences_def Let_def keys_classify_snd[OF pn1])
  show "set (map (part_number \<circ> fst) (modified_items r)) \<inter>
         set (map part_number (unchanged_items r)) = {}"
    unfolding m u by auto
qed

text \<open>
  Claim C5. For every two BOMs, the comparison constructed with empty \<open>added\<close>,
  \<open>removed\<close> and \<open>modified\<close> lists partitions the part numbers: \<open>removed\<close>
  holds the items whose part number exists only in the first BOM, \<open>added\<close> those whose
  part number exists only in the second; a part number of both BOMs gives a \<open>modified\<close>
  pair exactly when quantity (numeric inequality), description or unit differs, and an
  \<open>unchanged\<close> item otherwise; reference designator and notes are not compared. The item
  looked up for a part number is the last one of its BOM with that number. Every part
  number occurs once in its list, and never in both \<open>modified\<close> and \<open>unchanged\<close>.
\<close>

theorem compare_partitions:
  fixes b1 b2 :: BOM and u :: "BOMItem list"
  defines "r \<equiv> post_init \<lparr>bom1 = b1, bom2 = b2, added_items = [], removed_items = [],
                            modified_items = [], unchanged_items = u\<rparr>"
  defines "last1 \<equiv> (\<lambda>p. find (\<lambda>item. part_number item = p) (rev (items b1)))"
  defines "last2 \<equiv> (\<lambda>p. find (\<lambda>item. part_number item = p) (rev (items b2)))"
  shows "set (removed_items r) = {i. \<exists>p. last1 p = Some i \<and> p \<notin> part_number ` set (items b2)} \<and>
         set (added_items r) = {i. \<exists>p. last2 p = Some i \<and> p \<notin> part_number ` set (items b1)} \<and>
         set (modified_items r) =
           {(i1, i2). \<exists>p. last1 p = Some i1 \<and> last2 p = Some i2 \<and>
              (py_ne (quantity i1) (quantity i2) \<or> description i1 \<noteq> description i2 \<or>
               unit i1 \<noteq> unit i2)} \<and>
         set (unchanged_items r) =
           {i1. \<exists>p i2. last1 p = Some i1 \<and> last2 p = Some i2 \<and>
              \<not> (py_ne (quantity i1) (quantity i2) \<or> description i1 \<noteq> description i2 \<or>
                 unit i1 \<noteq> unit i2)} \<and>
         distinct (map part_number (removed_items r)) \<and>
         distinct (map part_number (added_items r)) \<and>
         distinct (map (part_number \<circ> fst) (modified_items r)) \<and>
         distinct (map part_number (unchanged_items r)) \<and>
         set (map (part_number \<circ> fst) (modified_items r)) \<inter>
           set (map part_number (unchanged_items r)) = {}"
proof -
  define c where "c = \<lparr>bom1 = b1, bom2 = b2, added_items = [], removed_items = [],
                         modified_items = [], unchanged_items = u\<rparr>"
  have r: "r = calculate_differences c"
    by (simp add: r_def c_def post_init_def)
  have b: "items (bom1 c) = items b1" "items (bom2 c) = items b2"
    by (simp_all add: c_def)
  have l1: "item_dict (items b1) = last1" and l2: "item_dict (items b2) = last2"
    by (auto simp: last1_def last2_def item_dict_last)
  have n2: "\<And>p. last2 p = None \<longleftrightarrow> p \<notin> part_number ` set (items b2)"
    using item_dict_None[of "items b2"] l2 by simp
  have n1: "\<And>p. last1 p = None \<longleftrightarrow> p \<notin> part_number ` set (items b1)"
    using item_dict_None[of "items b1"] l1 by simp
  note s = calculate_differences_sets[of c, folded r, unfolded b l1 l2 n1 n2 item_modified_def]
  note d = calculate_differences_distinct[of c, folded r]
  show ?thesis
    using s d by simp
qed

theorem compare_partitions_witness:
  "removed_items (post_init (ex_cmp [] [])) = [ex_item ''P1'' 2] \<and>
   added_items (post_init (ex_cmp [] [])) = [ex_item ''P3'' 1] \<and>
   modified_items (post_init (ex_cmp [] [])) = [] \<and>
   unchanged_items (post_init (ex_cmp [] [])) = [ex_item ''P2'' 5] \<and>
   set (removed_items (post_init (ex_cmp [] []))) =
     {i. \<exists>p. find (\<lambda>item. part_number item = p) (rev [ex_item ''P1'' 2, ex_item ''P2'' 5]) = Some i \<and>
          p \<notin> part_number ` set [ex_item ''P2'' 5, ex_item ''P3'' 1]}"
proof -
  have ev: "removed_items (post_init (ex_cmp [] [])) = [ex_item ''P1'' 2]"
    "added_items (post_init (ex_cmp [] [])) = [ex_item ''P3'' 1]"
    "modified_items (post_init (ex_cmp [] [])) = []"
    "unchanged_items (post_init (ex_cmp [] [])) = [ex_item ''P2'' 5]"
    by code_simp+
  have "set (removed_items (post_init (ex_cmp [] []))) =
     {i. \<exists>p. find (\<lambda>item. part_number item = p) (rev (items (ex_bom [ex_item ''P1'' 2, ex_item ''P2'' 5]))) = Some i \<and>
          p \<notin> part_number ` set (items (ex_bom [ex_item ''P2'' 5, ex_item ''P3'' 1]))}"
    using compare_partitions[of "ex_bom [ex_item ''P1'' 2, ex_item ''P2'' 5]"
      "ex_bom [ex_item ''P2'' 5, ex_item ''P3'' 1]" "[]"]
    unfolding ex_cmp_def by (rule conjunct1)
  then have "set (removed_items (post_init (ex_cmp [] []))) =
     {i. \<exists>p. find (\<lambda>item. part_number item = p) (rev [ex_item ''P1'' 2, ex_item ''P2'' 5]) = Some i \<and>
          p \<notin> part_number ` set [ex_item ''P2'' 5, ex_item ''P3'' 1]}"
    by (simp add: ex_bom_def)
  with ev show ?thesis by simp
qed

text \<open>
  Claim C10. \<open>BOMComparison\<close> computes its partitions at construction only when the
  supplied \<open>added_items\<close>, \<open>removed_items\<close> and \<open>modified_items\<close> are all empty, and
  then the supplied \<open>unchanged_items\<close> is not looked at and is overwritten; when one of
  the three is not empty nothing is computed and all four lists stay as passed in.
\<close>

theorem post_init_guard:
  "(added_items c = [] \<and> removed_items c = [] \<and> modified_items c = [] \<longrightarrow>
      post_init c = calculate_differences c \<and>
      post_init (c\<lparr>unchanged_items := u\<rparr>) = calculate_differences c) \<and>
   (added_items c \<noteq> [] \<or> removed_items c \<noteq> [] \<or> modified_items c \<noteq> [] \<longrightarrow>
      post_init c = c)"
  by (simp add: post_init_def calculate_differences_def Let_def)

theorem post_init_guard_witness:
  "post_init (ex_cmp [] [ex_item ''P9'' 1]) = calculate_differences (ex_cmp [] []) \<and>
   unchanged_items (post_init (ex_cmp [] [ex_item ''P9'' 1])) = [ex_item ''P2'' 5] \<and>
   post_init (ex_cmp [ex_item ''P9'' 1] [ex_item ''P8'' 1]) = ex_cmp [ex_item ''P9'' 1] [ex_item ''P8'' 1]"
proof -
  have a: "post_init (ex_cmp [] [ex_item ''P9'' 1]) = calculate_differences (ex_cmp [] [])"
    using post_init_guard[of "ex_cmp [] []" "[ex_item ''P9'' 1]"]
    by (simp add: ex_cmp_def)
  have b: "post_init (ex_cmp [ex_item ''P9'' 1] [ex_item ''P8'' 1]) =
           ex_cmp [ex_item ''P9'' 1] [ex_item ''P8'' 1]"
    using post_init_guard[of "ex_cmp [ex_item ''P9'' 1] [ex_item ''P8'' 1]"]
    by (simp add: ex_cmp_def)
  have c: "unchanged_items (calculate_differences (ex_cmp [] [])) = [ex_item ''P2'' 5]"
    by code_simp
  show ?thesis using a b c by simp
qed

section \<open>Properties of the random row generator\<close>

lemma alloc_partno_differs:
  "VStr (fst (alloc_partno long parent st)) \<noteq> parent"
proof (induction long parent st rule: alloc_partno.induct)
  case (1 long parent st)
  show ?case
  proof (cases "VStr (fst (next_partno long st)) = parent")
    case True
    then show ?thesis using "1.IH" by (subst alloc_partno.simps) simp
  next
    case False
    then show ?thesis by (subst alloc_partno.simps) simp
  qed
qed

lemma put_other: "k' \<noteq> k \<Longrightarrow> fst (put F k g rs) k' = fst rs k'"
  by (simp add: put_def case_prod_beta)

lemma put_fixed: "fst (put F k (fixed v) rs) k = (if k \<in> F then Some v else fst rs k)"
  by (simp add: put_def fixed_def)

lemma random_row_PartNo:
  "fst (random_row_for_child p sq lvl fo long st) ''PartNo'' =
     (if ''PartNo'' \<in> fields_or_all fo then Some (VStr (fst (alloc_partno long p st))) else None)"
  by (simp add: random_row_for_child_def Let_def put_other put_fixed)

lemma random_row_Sequence:
  "fst (random_row_for_child p sq lvl fo long st) ''Sequence'' =
     (if ''Sequence'' \<in> fields_or_all fo
      then Some (VInt (if sq > 0 then sq * 100 else 100)) else None)"
  by (simp add: random_row_for_child_def Let_def put_other put_fixed)

lemma random_row_Parent:
  "fst (random_row_for_child p sq lvl fo long st) ''Parent'' =
     (if ''Parent'' \<in> fields_or_all fo then Some p else None)"
  by (simp add: random_row_for_child_def Let_def put_other put_fixed)

lemma child_rows_loop_length:
  "length (fst (child_rows_loop p idxs lvl fo long st)) = length idxs"
  by (induction idxs arbitrary: st) (simp_all add: case_prod_beta)

lemma child_rows_loop_nth:
  "i < length idxs \<Longrightarrow>
   \<exists>st'. fst (child_rows_loop p idxs lvl fo long st) ! i =
          fst (random_row_for_child p (int (idxs ! i) + 1) lvl fo long st')"
proof (induction idxs arbitrary: st i)
  case Nil
  then show ?case by simp
next
  case (Cons j js)
  show ?case
  proof (cases i)
    case 0
    then show ?thesis by (auto simp: case_prod_beta)
  next
    case (Suc i')
    then have "i' < length js" using Cons.prems by simp
    from Cons.IH[OF this] show ?thesis using Suc by (simp add: case_prod_beta)
  qed
qed

text \<open>
  Claim C9. For every parent part number \<open>p\<close> and every count \<open>n\<close>,
  \<open>random_child_rows\<close> returns \<open>nat n\<close> rows (exactly \<open>n\<close> for \<open>n \<ge> 0\<close>); the
  row of index \<open>i\<close> is generated with sequence index \<open>i + 1\<close> (its \<open>Sequence\<close>, when
  populated, is \<open>(i + 1) * 100\<close>); the part number allocated for a row is never \<open>p\<close>, in
  the short and in the long form, so a row that populates \<open>PartNo\<close> carries a string other
  than \<open>p\<close>. The allocation loop is a total function: its termination is proved with its
  definition.
\<close>

theorem random_child_rows_batch:
  fixes p :: pyval and n :: int and fo lvl long st
  defines "rows \<equiv> fst (random_child_rows p n fo lvl long st)"
  shows "length rows = nat n \<and>
         (\<forall>i < nat n.
            (rows ! i) ''PartNo'' \<noteq> Some p \<and>
            (''PartNo'' \<in> fields_or_all fo \<longrightarrow>
               (\<exists>q. (rows ! i) ''PartNo'' = Some (VStr q) \<and> VStr q \<noteq> p)) \<and>
            (''PartNo'' \<notin> fields_or_all fo \<longrightarrow> (rows ! i) ''PartNo'' = None) \<and>
            (''Sequence'' \<in> fields_or_all fo \<longrightarrow>
               (rows ! i) ''Sequence'' = Some (VInt ((int i + 1) * 100)))) \<and>
         VStr (fst (alloc_partno long p st)) \<noteq> p"
proof -
  have len: "length rows = nat n"
    by (simp add: rows_def random_child_rows_def child_rows_loop_length)
  have each: "(rows ! i) ''PartNo'' \<noteq> Some p \<and>
            (''PartNo'' \<in> fields_or_all fo \<longrightarrow>
               (\<exists>q. (rows ! i) ''PartNo'' = Some (VStr q) \<and> VStr q \<noteq> p)) \<and>
            (''PartNo'' \<notin> fields_or_all fo \<longrightarrow> (rows ! i) ''PartNo'' = None) \<and>
            (''Sequence'' \<in> fields_or_all fo \<longrightarrow>
               (rows ! i) ''Sequence'' = Some (VInt ((int i + 1) * 100)))"
    if i: "i < nat n" for i
  proof -
    have "i < length [0..<nat n]" using i by simp
    from child_rows_loop_nth[OF this, of p lvl fo long st]
    obtain st' where r: "rows ! i = fst (random_row_for_child p (int i + 1) lvl fo long st')"
      using i by (auto simp: rows_def random_child_rows_def)
    show ?thesis
      unfolding r using alloc_partno_differs[of long p st']
      by (simp add: random_row_PartNo random_row_Sequence)
  qed
  show ?thesis
    using len each alloc_partno_differs[of long p st] by blast
qed

theorem random_child_rows_batch_witness:
  "length (fst (random_child_rows (VStr ''A001'') 2 (Some {''PartNo'', ''Sequence''}) 1 False ex_gen)) = 2 \<and>
   map (\<lambda>r. (r ''PartNo'', r ''Sequence''))
     (fst (random_child_rows (VStr ''A001'') 2 (Some {''PartNo'', ''Sequence''}) 1 False ex_gen)) =
     [(Some (VStr ''A002''), Some (VInt 100)), (Some (VStr ''A003''), Some (VInt 200))] \<and>
   (fst (random_child_rows (VStr ''A001'') 2 (Some {''PartNo'', ''Sequence''}) 1 False ex_gen) ! 0)
      ''PartNo'' \<noteq> Some (VStr ''A001'')"
proof -
  have ev: "map (\<lambda>r. (r ''PartNo'', r ''Sequence''))
     (fst (random_child_rows (VStr ''A001'') 2 (Some {''PartNo'', ''Sequence''}) 1 False ex_gen)) =
     [(Some (VStr ''A002''), Some (VInt 100)), (Some (VStr ''A003''), Some (VInt 200))]"
    by code_simp
  have "length (fst (random_child_rows (VStr ''A001'') 2 (Some {''PartNo'', ''Sequence''}) 1 False ex_gen)) = 2 \<and>
     (fst (random_child_rows (VStr ''A001'') 2 (Some {''PartNo'', ''Sequence''}) 1 False ex_gen) ! 0)
        ''PartNo'' \<noteq> Some (VStr ''A001'')"
    using random_child_rows_batch[of "VStr ''A001''" 2 "Some {''PartNo'', ''Sequence''}" 1 False ex_gen]
    by simp
  with ev show ?thesis by simp
qed

end
